theory Spec2Isabelle
  imports Main "HOL-Library.Word"
begin

section \<open>The WinSpd user mode API (winspd/winspd.h)\<close>

text \<open>
  The header declares the storage unit object and defines four inline functions:
  the two accessors of the dispatcher error register, the setter of the debug log flag
  and the helper that puts a sense condition into a status. They are embedded here as
  functions on records: a function that writes through a pointer takes the pointed-to
  value and returns the new one. Where a pointer argument may address a field of the
  structure that the function also reads, the pointer's target is an argument of its own.
\<close>

subsection \<open>Machine types\<close>

type_synonym UINT8 = "8 word"
type_synonym UINT16 = "16 word"
type_synonym UINT32 = "32 word"
type_synonym UINT64 = "64 word"
type_synonym DWORD = "32 word"
type_synonym ULONG = "32 word"

text \<open>
  \<open>PVOID\<close>, \<open>HANDLE\<close> and the interface pointer are addresses. No function of the header
  dereferences them, so an address is a natural number here.
\<close>

type_synonym PVOID = nat
type_synonym HANDLE = nat

text \<open>
  Two constants of the Windows SDK that the inline functions name:
  \<open>ERROR_SUCCESS\<close> (winerror.h) is 0 and \<open>SCSISTAT_CHECK_CONDITION\<close> (scsi.h) is 2.
\<close>

definition ERROR_SUCCESS :: DWORD where
  "ERROR_SUCCESS = 0"

definition SCSISTAT_CHECK_CONDITION :: UINT8 where
  "SCSISTAT_CHECK_CONDITION = 2"

subsection \<open>The storage unit\<close>

text \<open>
  \<open>struct _SPD_STORAGE_UNIT\<close>, field by field. \<open>SPD_STORAGE_UNIT_PARAMS\<close> is declared in
  winspd/ioctl.h; the functions below never look into it, so it is a type parameter.
\<close>

record 'params SPD_STORAGE_UNIT =
  Version :: UINT16
  UserContext :: PVOID
  StorageUnitParams :: 'params
  Interface :: PVOID
  Handle :: HANDLE
  Btl :: UINT32
  DispatcherThreadId :: DWORD
  DispatcherThread :: HANDLE
  DispatcherThreadCount :: ULONG
  DispatcherError :: DWORD
  DebugLog :: UINT32

text \<open>
  \<open>InterlockedCompareExchange (Destination, Exchange, Comparand)\<close> of the Windows API,
  as one indivisible step: it stores \<open>Exchange\<close> when the destination holds \<open>Comparand\<close>
  and returns what the destination held. The pair is (the destination afterwards, the
  value returned).
\<close>

definition InterlockedCompareExchange :: "DWORD \<Rightarrow> DWORD \<Rightarrow> DWORD \<Rightarrow> DWORD \<times> DWORD" where
  "InterlockedCompareExchange Destination Exchange Comparand =
     (if Destination = Comparand then Exchange else Destination, Destination)"

text \<open>
  What a \<open>DWORD *\<close> argument may address: a 32-bit cell outside the storage unit, or one
  of the 32-bit fields of the storage unit itself. \<open>DispatcherThreadId\<close> and
  \<open>DispatcherError\<close> are \<open>DWORD\<close> and \<open>DispatcherThreadCount\<close> is \<open>ULONG\<close>, the same type,
  so their addresses are passed without a cast; \<open>Btl\<close> and \<open>DebugLog\<close> are \<open>UINT32\<close>, of
  the same width, and their addresses are passed with one.
\<close>

datatype PDWORD =
    Outside
  | In_Btl
  | In_DispatcherThreadId
  | In_DispatcherThreadCount
  | In_DispatcherError
  | In_DebugLog

text \<open>
  The memory a call works on is the storage unit together with the one outside cell:
  \<open>load_DWORD\<close> is \<open>*p\<close> and \<open>store_DWORD\<close> is \<open>*p = v\<close>.
\<close>

fun load_DWORD :: "PDWORD \<Rightarrow> 'params SPD_STORAGE_UNIT \<times> DWORD \<Rightarrow> DWORD" where
  "load_DWORD Outside (su, cell) = cell"
| "load_DWORD In_Btl (su, cell) = Btl su"
| "load_DWORD In_DispatcherThreadId (su, cell) = DispatcherThreadId su"
| "load_DWORD In_DispatcherThreadCount (su, cell) = DispatcherThreadCount su"
| "load_DWORD In_DispatcherError (su, cell) = DispatcherError su"
| "load_DWORD In_DebugLog (su, cell) = DebugLog su"

fun store_DWORD ::
    "PDWORD \<Rightarrow> DWORD \<Rightarrow> 'params SPD_STORAGE_UNIT \<times> DWORD \<Rightarrow>
     'params SPD_STORAGE_UNIT \<times> DWORD" where
  "store_DWORD Outside v (su, cell) = (su, v)"
| "store_DWORD In_Btl v (su, cell) = (su\<lparr>Btl := v\<rparr>, cell)"
| "store_DWORD In_DispatcherThreadId v (su, cell) = (su\<lparr>DispatcherThreadId := v\<rparr>, cell)"
| "store_DWORD In_DispatcherThreadCount v (su, cell) =
     (su\<lparr>DispatcherThreadCount := v\<rparr>, cell)"
| "store_DWORD In_DispatcherError v (su, cell) = (su\<lparr>DispatcherError := v\<rparr>, cell)"
| "store_DWORD In_DebugLog v (su, cell) = (su\<lparr>DebugLog := v\<rparr>, cell)"

text \<open>
  \<open>SpdStorageUnitGetDispatcherError\<close>: the one statement
  \<open>*PDispatcherError = StorageUnit->DispatcherError\<close>, on the storage unit and the outside
  cell (the third argument is what that cell held before the call). The result is the
  storage unit and the outside cell after the call. \<open>MemoryBarrier ()\<close> changes no value.
\<close>

definition SpdStorageUnitGetDispatcherError ::
    "'params SPD_STORAGE_UNIT \<Rightarrow> PDWORD \<Rightarrow> DWORD \<Rightarrow> 'params SPD_STORAGE_UNIT \<times> DWORD" where
  "SpdStorageUnitGetDispatcherError StorageUnit PDispatcherError cell =
     store_DWORD PDispatcherError (DispatcherError StorageUnit) (StorageUnit, cell)"

text \<open>
  \<open>SpdStorageUnitSetDispatcherError\<close>: the early return on \<open>ERROR_SUCCESS\<close>, otherwise
  the compare-and-exchange on the \<open>DispatcherError\<close> field, whose result is dropped.
\<close>

definition SpdStorageUnitSetDispatcherError ::
    "'params SPD_STORAGE_UNIT \<Rightarrow> DWORD \<Rightarrow> 'params SPD_STORAGE_UNIT" where
  "SpdStorageUnitSetDispatcherError StorageUnit DispatcherError' =
     (if ERROR_SUCCESS = DispatcherError' then StorageUnit
      else StorageUnit\<lparr>DispatcherError :=
             fst (InterlockedCompareExchange (DispatcherError StorageUnit)
                    DispatcherError' ERROR_SUCCESS)\<rparr>)"

definition SpdStorageUnitSetDebugLog ::
    "'params SPD_STORAGE_UNIT \<Rightarrow> UINT32 \<Rightarrow> 'params SPD_STORAGE_UNIT" where
  "SpdStorageUnitSetDebugLog StorageUnit DebugLog' = StorageUnit\<lparr>DebugLog := DebugLog'\<rparr>"

text \<open>
  A sequence of \<open>SpdStorageUnitSetDispatcherError\<close> calls on one storage unit, in the
  order in which their compare-and-exchange steps take effect.
\<close>

fun SetDispatcherError_calls ::
    "'params SPD_STORAGE_UNIT \<Rightarrow> DWORD list \<Rightarrow> 'params SPD_STORAGE_UNIT" where
  "SetDispatcherError_calls StorageUnit [] = StorageUnit"
| "SetDispatcherError_calls StorageUnit (c # cs) =
     SetDispatcherError_calls (SpdStorageUnitSetDispatcherError StorageUnit c) cs"

text \<open>
  The register as the specification describes it: the code of the first call that
  supplied a code other than \<open>ERROR_SUCCESS\<close>, and \<open>ERROR_SUCCESS\<close> when no call did.
\<close>

fun first_non_success_code :: "DWORD list \<Rightarrow> DWORD" where
  "first_non_success_code [] = ERROR_SUCCESS"
| "first_non_success_code (c # cs) =
     (if c = ERROR_SUCCESS then first_non_success_code cs else c)"

text \<open>A storage unit fresh from creation, for concrete runs: every field zero.\<close>

definition zero_unit :: "unit SPD_STORAGE_UNIT" where
  "zero_unit = \<lparr>Version = 0, UserContext = 0, StorageUnitParams = (), Interface = 0,
     Handle = 0, Btl = 0, DispatcherThreadId = 0, DispatcherThread = 0,
     DispatcherThreadCount = 0, DispatcherError = 0, DebugLog = 0\<rparr>"

text \<open>
  A storage unit whose dispatcher runs and has recorded error 5, for concrete runs.
\<close>

definition failed_unit :: "unit SPD_STORAGE_UNIT" where
  "failed_unit = zero_unit\<lparr>DispatcherThreadId := 9, DispatcherError := 5\<rparr>"

subsection \<open>The status of an operation\<close>

text \<open>
  Modelled from the spec: \<open>SPD_STORAGE_UNIT_STATUS\<close> is \<open>SPD_IOCTL_STORAGE_UNIT_STATUS\<close>
  of winspd/ioctl.h, which is not part of the sources at hand. The specification gives
  a status as ScsiStatus, SenseKey, AdditionalSenseCode and an optional 64-bit Information
  with a validity flag; the names and widths are those \<open>SpdStorageUnitStatusSetSense\<close>
  shows (\<open>UINT8\<close> arguments, a \<open>PUINT64\<close>), the validity flag being a single bit.
  Whatever further fields the declaration has are the extension part of the record: the
  function below is defined on every extension, and so are the theorems about it.
\<close>

record SPD_STORAGE_UNIT_STATUS =
  ScsiStatus :: UINT8
  SenseKey :: UINT8
  ASC :: UINT8
  Information :: UINT64
  InformationValid :: "1 word"

text \<open>
  \<open>SpdStorageUnitStatusSetSense\<close>, assignment by assignment. \<open>PInformation\<close> is \<open>None\<close>
  for the null pointer and \<open>Some v\<close> for a pointer to the value \<open>v\<close>.
\<close>

definition SpdStorageUnitStatusSetSense ::
    "'a SPD_STORAGE_UNIT_STATUS_scheme \<Rightarrow> UINT8 \<Rightarrow> UINT8 \<Rightarrow> UINT64 option \<Rightarrow>
     'a SPD_STORAGE_UNIT_STATUS_scheme" where
  "SpdStorageUnitStatusSetSense Status SenseKey' ASC' PInformation =
     (let Status = Status\<lparr>ScsiStatus := SCSISTAT_CHECK_CONDITION\<rparr>;
          Status = Status\<lparr>SenseKey := SenseKey'\<rparr>;
          Status = Status\<lparr>ASC := ASC'\<rparr>
      in case PInformation of
           None \<Rightarrow> Status
         | Some v \<Rightarrow>
             (let Status = Status\<lparr>Information := v\<rparr>;
                  Status = Status\<lparr>InformationValid := 1\<rparr>
              in Status))"

text \<open>Two statuses for concrete runs: one whose Information is valid, one whose is not.\<close>

definition valid_status :: SPD_STORAGE_UNIT_STATUS where
  "valid_status = \<lparr>ScsiStatus = 0, SenseKey = 0, ASC = 0, Information = 7,
     InformationValid = 1\<rparr>"

definition stale_status :: SPD_STORAGE_UNIT_STATUS where
  "stale_status = \<lparr>ScsiStatus = 0, SenseKey = 0, ASC = 0, Information = 7,
     InformationValid = 0\<rparr>"

subsection \<open>The Unmap operation of a storage unit\<close>

text \<open>
  Modelled from the spec: \<open>SPD_UNMAP_DESCRIPTOR\<close> is \<open>SPD_IOCTL_UNMAP_DESCRIPTOR\<close> of
  winspd/ioctl.h, which is not part of the sources at hand. The specification gives a
  descriptor as a block address and a block count.
\<close>

record SPD_UNMAP_DESCRIPTOR =
  BlockAddress :: UINT64
  BlockCount :: UINT32

text \<open>A sense condition as a failing operation reports it: sense key, ASC, information.\<close>

type_synonym sense = "UINT8 \<times> UINT8 \<times> UINT64 option"

text \<open>
  Modelled from the spec: the header declares \<open>Unmap\<close> as a function pointer of
  \<open>SPD_STORAGE_UNIT_INTERFACE\<close> and holds no implementation of it. By the specification
  the descriptors are processed in order, the call reports failure if any descriptor
  fails, and whether the descriptors already applied are then rolled back is left to
  the implementation. Here \<open>backing\<close> is the backing I/O for one descriptor (a sense
  condition when it fails, the new backing store otherwise), and the last component of
  the result lists the descriptors submitted to it.
\<close>

fun Unmap_each ::
    "(SPD_UNMAP_DESCRIPTOR \<Rightarrow> 'disk \<Rightarrow> sense + 'disk) \<Rightarrow> SPD_UNMAP_DESCRIPTOR list \<Rightarrow>
     'disk \<Rightarrow> SPD_UNMAP_DESCRIPTOR list \<Rightarrow> sense option \<times> 'disk \<times> SPD_UNMAP_DESCRIPTOR list" where
  "Unmap_each backing [] disk submitted = (None, disk, submitted)"
| "Unmap_each backing (d # ds) disk submitted =
     (case backing d disk of
        Inl failure \<Rightarrow> (Some failure, disk, submitted @ [d])
      | Inr disk' \<Rightarrow> Unmap_each backing ds disk' (submitted @ [d]))"

text \<open>
  Modelled from the spec: \<open>Unmap (StorageUnit, Descriptors, Count, Status)\<close> on the first
  \<open>Count\<close> descriptors. The result is the \<open>BOOLEAN\<close> returned, the status, the backing
  store and the descriptors submitted to the backing I/O. On failure the status
  receives the sense condition through \<open>SpdStorageUnitStatusSetSense\<close>, and
  \<open>on_failure\<close> (given the store before the call and the store reached) decides what is
  rolled back.
\<close>

definition Unmap ::
    "(SPD_UNMAP_DESCRIPTOR \<Rightarrow> 'disk \<Rightarrow> sense + 'disk) \<Rightarrow> ('disk \<Rightarrow> 'disk \<Rightarrow> 'disk) \<Rightarrow>
     'disk \<Rightarrow> SPD_UNMAP_DESCRIPTOR list \<Rightarrow> UINT32 \<Rightarrow> 'a SPD_STORAGE_UNIT_STATUS_scheme \<Rightarrow>
     bool \<times> 'a SPD_STORAGE_UNIT_STATUS_scheme \<times> 'disk \<times> SPD_UNMAP_DESCRIPTOR list" where
  "Unmap backing on_failure disk Descriptors Count Status =
     (case Unmap_each backing (take (unat Count) Descriptors) disk [] of
        (None, disk', submitted) \<Rightarrow> (True, Status, disk', submitted)
      | (Some (sk, asc, info), disk', submitted) \<Rightarrow>
          (False, SpdStorageUnitStatusSetSense Status sk asc info,
           on_failure disk disk', submitted))"

section \<open>The dispatcher error register\<close>

lemma SetDispatcherError_held:
  "DispatcherError su \<noteq> ERROR_SUCCESS \<Longrightarrow> SpdStorageUnitSetDispatcherError su c = su"
  by (simp add: SpdStorageUnitSetDispatcherError_def InterlockedCompareExchange_def)

lemma SetDispatcherError_calls_held:
  "DispatcherError su \<noteq> ERROR_SUCCESS \<Longrightarrow> SetDispatcherError_calls su cs = su"
  by (induction cs) (simp_all add: SetDispatcherError_held)

lemma SetDispatcherError_first:
  "DispatcherError su = ERROR_SUCCESS \<Longrightarrow>
   DispatcherError (SpdStorageUnitSetDispatcherError su c) = c"
  by (simp add: SpdStorageUnitSetDispatcherError_def InterlockedCompareExchange_def)

lemma SetDispatcherError_calls_append:
  "SetDispatcherError_calls su (xs @ ys) =
   SetDispatcherError_calls (SetDispatcherError_calls su xs) ys"
  by (induction xs arbitrary: su) simp_all

lemma SetDispatcherError_calls_success:
  "\<forall>x\<in>set cs. x = ERROR_SUCCESS \<Longrightarrow> SetDispatcherError_calls su cs = su"
  by (induction cs) (simp_all add: SpdStorageUnitSetDispatcherError_def)

lemma SetDispatcherError_calls_register:
  "DispatcherError su = ERROR_SUCCESS \<Longrightarrow>
   DispatcherError (SetDispatcherError_calls su cs) = first_non_success_code cs"
proof (induction cs arbitrary: su)
  case Nil
  then show ?case by simp
next
  case (Cons c cs)
  show ?case
  proof (cases "c = ERROR_SUCCESS")
    case True
    then have "SpdStorageUnitSetDispatcherError su c = su"
      by (simp add: SpdStorageUnitSetDispatcherError_def)
    with True Cons show ?thesis by simp
  next
    case False
    let ?su = "SpdStorageUnitSetDispatcherError su c"
    have "DispatcherError ?su = c"
      using Cons.prems by (rule SetDispatcherError_first)
    with False have "SetDispatcherError_calls ?su cs = ?su"
      by (simp add: SetDispatcherError_calls_held)
    with False \<open>DispatcherError ?su = c\<close> show ?thesis by simp
  qed
qed

text \<open>
  C1. Started on a register that holds \<open>ERROR_SUCCESS\<close>, a sequence of
  \<open>SpdStorageUnitSetDispatcherError\<close> calls leaves in the register the code of the first
  call whose code was not \<open>ERROR_SUCCESS\<close>; and from that call on (the sequence split as
  \<open>pre @ c # post\<close>, \<open>c\<close> the first code that is not \<open>ERROR_SUCCESS\<close>) the register holds
  \<open>c\<close> after every further call, whatever code that call supplies.
\<close>

theorem dispatcher_error_first_write_wins:
  assumes "DispatcherError su = ERROR_SUCCESS"
  shows "DispatcherError (SetDispatcherError_calls su codes) = first_non_success_code codes
    \<and> (\<forall>pre c post. codes = pre @ c # post \<and> (\<forall>x\<in>set pre. x = ERROR_SUCCESS)
          \<and> c \<noteq> ERROR_SUCCESS \<longrightarrow>
         (\<forall>k\<le>length post.
            DispatcherError (SetDispatcherError_calls su (pre @ c # take k post)) = c))"
proof (intro conjI allI impI)
  show "DispatcherError (SetDispatcherError_calls su codes) = first_non_success_code codes"
    using assms by (rule SetDispatcherError_calls_register)
next
  fix pre c post k
  assume split: "codes = pre @ c # post \<and> (\<forall>x\<in>set pre. x = ERROR_SUCCESS)
    \<and> c \<noteq> ERROR_SUCCESS"
  let ?su = "SpdStorageUnitSetDispatcherError su c"
  from split have "SetDispatcherError_calls su pre = su"
    by (simp add: SetDispatcherError_calls_success)
  then have run: "SetDispatcherError_calls su (pre @ c # take k post) =
      SetDispatcherError_calls ?su (take k post)"
    by (simp add: SetDispatcherError_calls_append)
  have c: "DispatcherError ?su = c"
    using assms by (rule SetDispatcherError_first)
  with split have "SetDispatcherError_calls ?su (take k post) = ?su"
    by (simp add: SetDispatcherError_calls_held)
  with run c show "DispatcherError (SetDispatcherError_calls su (pre @ c # take k post)) = c"
    by simp
qed

theorem dispatcher_error_first_write_wins_witness:
  "DispatcherError zero_unit = ERROR_SUCCESS
   \<and> DispatcherError (SetDispatcherError_calls zero_unit [0, 5, 0, 7]) = 5
   \<and> DispatcherError (SetDispatcherError_calls zero_unit [0, 5, 0]) = 5"
proof -
  have h: "DispatcherError zero_unit = ERROR_SUCCESS"
    by (simp add: zero_unit_def ERROR_SUCCESS_def)
  note fw = dispatcher_error_first_write_wins [OF h, of "[0, 5, 0, 7]"]
  from fw have final: "DispatcherError (SetDispatcherError_calls zero_unit [0, 5, 0, 7]) = 5"
    by (simp add: ERROR_SUCCESS_def)
  from fw have "([0, 5, 0, 7] :: DWORD list) = [0] @ 5 # [0, 7]
      \<and> (\<forall>x\<in>set [0 :: DWORD]. x = ERROR_SUCCESS) \<and> (5 :: DWORD) \<noteq> ERROR_SUCCESS \<longrightarrow>
      (\<forall>k\<le>length [0 :: DWORD, 7].
         DispatcherError (SetDispatcherError_calls zero_unit ([0] @ 5 # take k [0, 7])) = 5)"
    by blast
  then have "\<forall>k\<le>length [0 :: DWORD, 7].
      DispatcherError (SetDispatcherError_calls zero_unit ([0] @ 5 # take k [0, 7])) = 5"
    by (simp add: ERROR_SUCCESS_def)
  then have "(1 :: nat) \<le> length [0 :: DWORD, 7] \<longrightarrow>
      DispatcherError (SetDispatcherError_calls zero_unit ([0] @ 5 # take 1 [0, 7])) = 5"
    by (rule spec)
  then have mid: "DispatcherError (SetDispatcherError_calls zero_unit [0, 5, 0]) = 5"
    by simp
  from h final mid show ?thesis by simp
qed

lemma first_non_success_code_cases:
  "first_non_success_code cs = ERROR_SUCCESS \<or> first_non_success_code cs \<in> set cs"
  by (induction cs) auto

lemma load_after_store:
  "load_DWORD p (store_DWORD p v (su, cell)) = v"
  by (cases p) simp_all

lemma store_keeps_DispatcherError:
  "DispatcherError (fst (store_DWORD p (DispatcherError su) (su, cell))) = DispatcherError su"
  by (cases p) simp_all

lemma GetDispatcherError_after_calls:
  "DispatcherError su = ERROR_SUCCESS \<Longrightarrow>
   load_DWORD p (SpdStorageUnitGetDispatcherError (SetDispatcherError_calls su cs) p cell)
     = ERROR_SUCCESS
   \<or> load_DWORD p (SpdStorageUnitGetDispatcherError (SetDispatcherError_calls su cs) p cell)
     \<in> set cs"
  using first_non_success_code_cases [of cs]
  by (simp add: SpdStorageUnitGetDispatcherError_def load_after_store
      SetDispatcherError_calls_register)

lemma GetDispatcherError_changes_aliased_field:
  "p \<noteq> Outside \<Longrightarrow> load_DWORD p (su, cell) \<noteq> DispatcherError su \<Longrightarrow>
   fst (SpdStorageUnitGetDispatcherError su p cell) \<noteq> su"
proof
  assume inside: "p \<noteq> Outside" and differ: "load_DWORD p (su, cell) \<noteq> DispatcherError su"
  assume same: "fst (SpdStorageUnitGetDispatcherError su p cell) = su"
  have "load_DWORD p (SpdStorageUnitGetDispatcherError su p cell) = DispatcherError su"
    by (simp add: SpdStorageUnitGetDispatcherError_def load_after_store)
  moreover have "snd (SpdStorageUnitGetDispatcherError su p cell) = cell"
    using inside by (cases p) (simp_all add: SpdStorageUnitGetDispatcherError_def)
  ultimately have "load_DWORD p (su, cell) = DispatcherError su"
    using same by (metis prod.collapse)
  with differ show False by simp
qed

text \<open>
  C8. \<open>SpdStorageUnitSetDispatcherError\<close> with \<open>ERROR_SUCCESS\<close> returns the storage unit
  as it was, whatever the register holds; and a register that holds a code other than
  \<open>ERROR_SUCCESS\<close> still holds that code, so not \<open>ERROR_SUCCESS\<close>, after any sequence
  of calls.
\<close>

theorem set_dispatcher_error_success_is_noop:
  "SpdStorageUnitSetDispatcherError su ERROR_SUCCESS = su
   \<and> (DispatcherError su \<noteq> ERROR_SUCCESS \<longrightarrow>
        DispatcherError (SetDispatcherError_calls su codes) = DispatcherError su
        \<and> DispatcherError (SetDispatcherError_calls su codes) \<noteq> ERROR_SUCCESS)"
  by (simp add: SpdStorageUnitSetDispatcherError_def SetDispatcherError_calls_held)

theorem set_dispatcher_error_success_is_noop_witness:
  "DispatcherError (zero_unit\<lparr>DispatcherError := 5\<rparr>) \<noteq> ERROR_SUCCESS
   \<and> SpdStorageUnitSetDispatcherError (zero_unit\<lparr>DispatcherError := 5\<rparr>) ERROR_SUCCESS
       = zero_unit\<lparr>DispatcherError := 5\<rparr>
   \<and> DispatcherError (SetDispatcherError_calls (zero_unit\<lparr>DispatcherError := 5\<rparr>) [0, 7, 0])
       = 5"
proof -
  have h: "DispatcherError (zero_unit\<lparr>DispatcherError := 5\<rparr>) \<noteq> ERROR_SUCCESS"
    by (simp add: ERROR_SUCCESS_def)
  from h set_dispatcher_error_success_is_noop
         [of "zero_unit\<lparr>DispatcherError := 5\<rparr>" "[0, 7, 0]"]
  show ?thesis by simp
qed

text \<open>
  C10, as stated: for every storage unit state \<open>SpdStorageUnitGetDispatcherError\<close> stores
  the \<open>DispatcherError\<close> field into \<open>*PDispatcherError\<close> and leaves every field of the
  storage unit unchanged. It fails when \<open>PDispatcherError\<close> is the address of the
  \<open>DispatcherThreadId\<close> field of the same storage unit: that field held 9 and holds the
  error code 5 after the call.
\<close>

theorem get_dispatcher_error_read_only_counterexample:
  "\<not> (load_DWORD In_DispatcherThreadId
         (SpdStorageUnitGetDispatcherError failed_unit In_DispatcherThreadId 0)
       = DispatcherError failed_unit
      \<and> fst (SpdStorageUnitGetDispatcherError failed_unit In_DispatcherThreadId 0)
       = failed_unit)"
proof
  assume "load_DWORD In_DispatcherThreadId
         (SpdStorageUnitGetDispatcherError failed_unit In_DispatcherThreadId 0)
       = DispatcherError failed_unit
      \<and> fst (SpdStorageUnitGetDispatcherError failed_unit In_DispatcherThreadId 0)
       = failed_unit"
  then have "DispatcherThreadId
      (fst (SpdStorageUnitGetDispatcherError failed_unit In_DispatcherThreadId 0))
      = DispatcherThreadId failed_unit"
    by simp
  then show False
    by (simp add: SpdStorageUnitGetDispatcherError_def failed_unit_def)
qed

text \<open>
  C10, amended: for every storage unit state and every target of \<open>PDispatcherError\<close>,
  \<open>SpdStorageUnitGetDispatcherError\<close> stores the \<open>DispatcherError\<close> field into
  \<open>*PDispatcherError\<close> and leaves the \<open>DispatcherError\<close> field as it was; and when
  \<open>PDispatcherError\<close> points outside the storage unit, or at a field of it that already
  holds the value of \<open>DispatcherError\<close>, it leaves every field of the storage unit
  unchanged.
\<close>

theorem get_dispatcher_error_read_only:
  "load_DWORD p (SpdStorageUnitGetDispatcherError su p cell) = DispatcherError su
   \<and> DispatcherError (fst (SpdStorageUnitGetDispatcherError su p cell)) = DispatcherError su
   \<and> (p = Outside \<or> load_DWORD p (su, cell) = DispatcherError su \<longrightarrow>
        fst (SpdStorageUnitGetDispatcherError su p cell) = su)"
proof (intro conjI impI)
  show "load_DWORD p (SpdStorageUnitGetDispatcherError su p cell) = DispatcherError su"
    by (simp add: SpdStorageUnitGetDispatcherError_def load_after_store)
  show "DispatcherError (fst (SpdStorageUnitGetDispatcherError su p cell)) = DispatcherError su"
    by (simp add: SpdStorageUnitGetDispatcherError_def store_keeps_DispatcherError)
  assume "p = Outside \<or> load_DWORD p (su, cell) = DispatcherError su"
  then show "fst (SpdStorageUnitGetDispatcherError su p cell) = su"
    by (cases p) (auto simp add: SpdStorageUnitGetDispatcherError_def)
qed

theorem get_dispatcher_error_read_only_witness:
  "(Outside = Outside \<or> load_DWORD Outside (failed_unit, 0) = DispatcherError failed_unit)
   \<and> SpdStorageUnitGetDispatcherError failed_unit Outside 0 = (failed_unit, 5)"
proof -
  have h: "Outside = Outside \<or> load_DWORD Outside (failed_unit, 0) = DispatcherError failed_unit"
    by simp
  have e: "DispatcherError failed_unit = 5"
    by (simp add: failed_unit_def)
  from get_dispatcher_error_read_only [of Outside failed_unit 0] h e
  have "load_DWORD Outside (SpdStorageUnitGetDispatcherError failed_unit Outside 0) = 5
      \<and> fst (SpdStorageUnitGetDispatcherError failed_unit Outside 0) = failed_unit"
    by simp
  then have "SpdStorageUnitGetDispatcherError failed_unit Outside 0 = (failed_unit, 5)"
    by (cases "SpdStorageUnitGetDispatcherError failed_unit Outside 0") simp
  with h show ?thesis by simp
qed

section \<open>Sense conditions\<close>

lemma SetSense_None:
  "SpdStorageUnitStatusSetSense s sk asc None =
   s\<lparr>ScsiStatus := SCSISTAT_CHECK_CONDITION, SenseKey := sk, ASC := asc\<rparr>"
  by (simp add: SpdStorageUnitStatusSetSense_def)

lemma SetSense_Some:
  "SpdStorageUnitStatusSetSense s sk asc (Some v) =
   s\<lparr>ScsiStatus := SCSISTAT_CHECK_CONDITION, SenseKey := sk, ASC := asc,
      Information := v, InformationValid := 1\<rparr>"
  by (simp add: SpdStorageUnitStatusSetSense_def)

text \<open>
  C2. With a pointer to the value \<open>info\<close>, \<open>SpdStorageUnitStatusSetSense\<close> leaves a status
  whose ScsiStatus is \<open>SCSISTAT_CHECK_CONDITION\<close>, whose SenseKey and ASC are the
  arguments, whose Information is \<open>info\<close> and whose InformationValid is 1.
\<close>

theorem set_sense_with_information:
  "ScsiStatus (SpdStorageUnitStatusSetSense s sk asc (Some info)) = SCSISTAT_CHECK_CONDITION
   \<and> SenseKey (SpdStorageUnitStatusSetSense s sk asc (Some info)) = sk
   \<and> ASC (SpdStorageUnitStatusSetSense s sk asc (Some info)) = asc
   \<and> Information (SpdStorageUnitStatusSetSense s sk asc (Some info)) = info
   \<and> InformationValid (SpdStorageUnitStatusSetSense s sk asc (Some info)) = 1"
  by (simp add: SetSense_Some)

text \<open>
  C4. Whether the information pointer is null or not, \<open>SpdStorageUnitStatusSetSense\<close>
  leaves a status whose ScsiStatus is \<open>SCSISTAT_CHECK_CONDITION\<close> and whose SenseKey and
  ASC are the arguments.
\<close>

theorem set_sense_forces_check_condition:
  "ScsiStatus (SpdStorageUnitStatusSetSense s sk asc pinfo) = SCSISTAT_CHECK_CONDITION
   \<and> SenseKey (SpdStorageUnitStatusSetSense s sk asc pinfo) = sk
   \<and> ASC (SpdStorageUnitStatusSetSense s sk asc pinfo) = asc"
  by (cases pinfo) (simp_all add: SetSense_None SetSense_Some)

text \<open>
  C3, as stated: with a null information pointer the status comes out with
  InformationValid 0 and Information unchanged. It fails on a status that enters the
  call with InformationValid 1: the flag is still 1 afterwards.
\<close>

theorem set_sense_null_invalid_counterexample:
  "\<not> (InformationValid (SpdStorageUnitStatusSetSense valid_status 5 36 None) = 0
      \<and> Information (SpdStorageUnitStatusSetSense valid_status 5 36 None)
          = Information valid_status)"
  by (simp add: SetSense_None valid_status_def)

text \<open>
  C3, amended: with a null information pointer, a status that enters the call with
  InformationValid 0 comes out with InformationValid 0 and its Information unchanged.
\<close>

theorem set_sense_null_keeps_invalid:
  assumes "InformationValid s = 0"
  shows "InformationValid (SpdStorageUnitStatusSetSense s sk asc None) = 0
    \<and> Information (SpdStorageUnitStatusSetSense s sk asc None) = Information s"
  using assms by (simp add: SetSense_None)

theorem set_sense_null_keeps_invalid_witness:
  "InformationValid stale_status = 0
   \<and> InformationValid (SpdStorageUnitStatusSetSense stale_status 5 36 None) = 0
   \<and> Information (SpdStorageUnitStatusSetSense stale_status 5 36 None) = 7"
proof -
  have h: "InformationValid stale_status = 0"
    by (simp add: stale_status_def)
  have i: "Information stale_status = 7"
    by (simp add: stale_status_def)
  from h i set_sense_null_keeps_invalid [OF h, of 5 36] show ?thesis
    by simp
qed

text \<open>
  C9. With a null information pointer, Information and InformationValid come out of
  \<open>SpdStorageUnitStatusSetSense\<close> as they went in; and a status that enters a call with
  InformationValid 1 leaves it with InformationValid 1, whatever the pointer.
\<close>

theorem set_sense_null_retains_information:
  "Information (SpdStorageUnitStatusSetSense s sk asc None) = Information s
   \<and> InformationValid (SpdStorageUnitStatusSetSense s sk asc None) = InformationValid s
   \<and> (InformationValid s = 1 \<longrightarrow>
        InformationValid (SpdStorageUnitStatusSetSense s sk asc pinfo) = 1)"
  by (cases pinfo) (simp_all add: SetSense_None SetSense_Some)

theorem set_sense_null_retains_information_witness:
  "InformationValid valid_status = 1
   \<and> Information (SpdStorageUnitStatusSetSense valid_status 5 36 None) = 7
   \<and> InformationValid (SpdStorageUnitStatusSetSense valid_status 5 36 None) = 1"
proof -
  have h: "InformationValid valid_status = 1"
    by (simp add: valid_status_def)
  have i: "Information valid_status = 7"
    by (simp add: valid_status_def)
  from h i set_sense_null_retains_information [of valid_status 5 36 None] show ?thesis
    by simp
qed

text \<open>
  C6. \<open>SpdStorageUnitStatusSetSense\<close> returns the status it was given with new values in
  ScsiStatus, SenseKey and ASC and, when an information pointer is supplied, in
  Information and InformationValid: it differs from the status given in no field
  besides these, it leaves alone every field the structure has besides the five, and
  with a null pointer Information and InformationValid as well.
\<close>

theorem set_sense_frame:
  "SpdStorageUnitStatusSetSense s sk asc None =
     s\<lparr>ScsiStatus := ScsiStatus (SpdStorageUnitStatusSetSense s sk asc None),
        SenseKey := SenseKey (SpdStorageUnitStatusSetSense s sk asc None),
        ASC := ASC (SpdStorageUnitStatusSetSense s sk asc None)\<rparr>
   \<and> SpdStorageUnitStatusSetSense s sk asc (Some v) =
     s\<lparr>ScsiStatus := ScsiStatus (SpdStorageUnitStatusSetSense s sk asc (Some v)),
        SenseKey := SenseKey (SpdStorageUnitStatusSetSense s sk asc (Some v)),
        ASC := ASC (SpdStorageUnitStatusSetSense s sk asc (Some v)),
        Information := Information (SpdStorageUnitStatusSetSense s sk asc (Some v)),
        InformationValid := InformationValid (SpdStorageUnitStatusSetSense s sk asc (Some v))\<rparr>
   \<and> SPD_STORAGE_UNIT_STATUS.more (SpdStorageUnitStatusSetSense s sk asc pinfo)
       = SPD_STORAGE_UNIT_STATUS.more s"
  by (cases pinfo) (simp_all add: SetSense_None SetSense_Some)

section \<open>Unmap\<close>

text \<open>
  C7. \<open>Unmap\<close> with \<open>Count\<close> 0 returns success, submits no descriptor to the backing I/O
  and leaves the backing store and the status as they were, whatever the descriptor
  array holds; so does \<open>Unmap\<close> on an empty descriptor sequence.
\<close>

theorem unmap_empty_is_success:
  "Unmap backing on_failure disk Descriptors 0 Status = (True, Status, disk, [])
   \<and> Unmap backing on_failure disk [] Count Status = (True, Status, disk, [])"
  by (simp add: Unmap_def)

end
